theory Spec2Isabelle
  imports Main "HOL-Library.Word"
begin

section \<open>JavaScript values used by the SDK\<close>

text \<open>
  A JavaScript string is a sequence of 16-bit code units; a chunk delivered by the
  response stream is a sequence of bytes. String literals of the source are written
  with \<open>js\<close>, which maps each (ASCII) character to its code unit.
\<close>

type_synonym byte = "8 word"
type_synonym code_unit = "16 word"
type_synonym jsstring = "code_unit list"

definition js :: "string \<Rightarrow> jsstring" where
  "js s = map of_char s"

definition bytes :: "string \<Rightarrow> byte list" where
  "bytes s = map of_char s"

subsection \<open>String methods\<close>

definition startsWith :: "jsstring \<Rightarrow> jsstring \<Rightarrow> bool" where
  "startsWith s p = (take (length p) s = p)"

fun includes_js :: "jsstring \<Rightarrow> jsstring \<Rightarrow> bool" where
  "includes_js [] p = (p = [])"
| "includes_js (c # cs) p = (startsWith (c # cs) p \<or> includes_js cs p)"

definition substring :: "jsstring \<Rightarrow> nat \<Rightarrow> jsstring" where
  "substring s n = drop n s"

text \<open>
  \<open>trim\<close> removes the WhiteSpace and LineTerminator code units of ECMAScript from
  both ends.
\<close>

definition is_space :: "code_unit \<Rightarrow> bool" where
  "is_space c \<longleftrightarrow>
     c \<in> {0x09, 0x0A, 0x0B, 0x0C, 0x0D, 0x20, 0xA0, 0x1680, 0x2028, 0x2029, 0x202F,
          0x205F, 0x3000, 0xFEFF}
     \<or> (0x2000 \<le> c \<and> c \<le> 0x200A)"

definition trim :: "jsstring \<Rightarrow> jsstring" where
  "trim s = rev (dropWhile is_space (rev (dropWhile is_space s)))"

text \<open>
  \<open>s.split('\n')\<close>: the pieces between the line feeds; the result is never empty,
  and its last element is what follows the last line feed.
\<close>

definition LF :: code_unit where
  "LF = 0x0A"

fun split_on :: "code_unit \<Rightarrow> jsstring \<Rightarrow> jsstring list" where
  "split_on d [] = [[]]"
| "split_on d (c # cs) =
     (if c = d then [] # split_on d cs
      else (case split_on d cs of
              [] \<Rightarrow> [[c]]
            | l # ls \<Rightarrow> (c # l) # ls))"

subsection \<open>The UTF-8 TextDecoder\<close>

text \<open>
  \<open>new TextDecoder('utf-8')\<close> with \<open>decode(chunk, {stream: true})\<close>: the decoder
  of the Encoding Standard, one byte at a time, its state kept between calls. With
  \<open>stream: true\<close> the end of a chunk is not the end of the input, so pending bytes of
  an unfinished character stay in the state. Errors are replaced by U+FFFD, and a
  leading byte order mark is dropped.
\<close>

record utf8_decoder =
  code_point :: nat
  bytes_seen :: nat
  bytes_needed :: nat
  lower_boundary :: byte
  upper_boundary :: byte
  bom_seen :: bool

definition new_decoder :: utf8_decoder where
  "new_decoder = \<lparr>code_point = 0, bytes_seen = 0, bytes_needed = 0,
     lower_boundary = 0x80, upper_boundary = 0xBF, bom_seen = False\<rparr>"

text \<open>The handler's case for a byte that starts a character (no bytes are needed).\<close>

definition lead_byte :: "utf8_decoder \<Rightarrow> byte \<Rightarrow> utf8_decoder \<times> nat list" where
  "lead_byte d b =
     (if b \<le> 0x7F then (d, [unat b])
      else if 0xC2 \<le> b \<and> b \<le> 0xDF then
        (d\<lparr>bytes_needed := 1, code_point := unat b mod 32\<rparr>, [])
      else if 0xE0 \<le> b \<and> b \<le> 0xEF then
        (d\<lparr>lower_boundary := (if b = 0xE0 then 0xA0 else lower_boundary d),
           upper_boundary := (if b = 0xED then 0x9F else upper_boundary d),
           bytes_needed := 2, code_point := unat b mod 16\<rparr>, [])
      else if 0xF0 \<le> b \<and> b \<le> 0xF4 then
        (d\<lparr>lower_boundary := (if b = 0xF0 then 0x90 else lower_boundary d),
           upper_boundary := (if b = 0xF4 then 0x8F else upper_boundary d),
           bytes_needed := 3, code_point := unat b mod 8\<rparr>, [])
      else (d, [0xFFFD]))"

definition handler :: "utf8_decoder \<Rightarrow> byte \<Rightarrow> utf8_decoder \<times> nat list" where
  "handler d b =
     (if bytes_needed d = 0 then lead_byte d b
      else if \<not> (lower_boundary d \<le> b \<and> b \<le> upper_boundary d) then
        (let d0 = d\<lparr>code_point := 0, bytes_needed := 0, bytes_seen := 0,
                     lower_boundary := 0x80, upper_boundary := 0xBF\<rparr>;
             (d1, out) = lead_byte d0 b
         in (d1, 0xFFFD # out))
      else
        (let cp = code_point d * 64 + unat b mod 64;
             d1 = d\<lparr>lower_boundary := 0x80, upper_boundary := 0xBF,
                     code_point := cp, bytes_seen := bytes_seen d + 1\<rparr>
         in if bytes_seen d1 \<noteq> bytes_needed d1 then (d1, [])
            else (d1\<lparr>code_point := 0, bytes_needed := 0, bytes_seen := 0\<rparr>, [cp])))"

text \<open>A scalar value becomes one code unit, or a surrogate pair above U+FFFF.\<close>

definition code_units :: "nat \<Rightarrow> jsstring" where
  "code_units cp =
     (if cp < 0x10000 then [of_nat cp]
      else [of_nat (0xD800 + (cp - 0x10000) div 0x400),
            of_nat (0xDC00 + (cp - 0x10000) mod 0x400)])"

text \<open>Serialising the output: the first scalar value is dropped when it is U+FEFF.\<close>

fun serialize :: "bool \<Rightarrow> nat list \<Rightarrow> bool \<times> jsstring" where
  "serialize seen [] = (seen, [])"
| "serialize seen (cp # cps) =
     (if \<not> seen \<and> cp = 0xFEFF then serialize True cps
      else (let (seen', out) = serialize True cps in (seen', code_units cp @ out)))"

definition decode_byte :: "utf8_decoder \<Rightarrow> byte \<Rightarrow> utf8_decoder \<times> jsstring" where
  "decode_byte d b =
     (let (d1, cps) = handler d b;
          (seen, out) = serialize (bom_seen d1) cps
      in (d1\<lparr>bom_seen := seen\<rparr>, out))"

fun decode :: "utf8_decoder \<Rightarrow> byte list \<Rightarrow> utf8_decoder \<times> jsstring" where
  "decode d [] = (d, [])"
| "decode d (b # bs) =
     (let (d1, out1) = decode_byte d b;
          (d2, out2) = decode d1 bs
      in (d2, out1 @ out2))"

subsection \<open>JSON values and \<open>JSON.parse\<close>\<close>

text \<open>
  The values \<open>JSON.parse\<close> can return. A number is kept as its literal (the SDK never
  computes with it, and two literals of one number stay apart); an object is its list
  of own properties in the order of the text, each name once (the order in which an
  engine enumerates integer-like names is not modelled). \<open>undefined\<close> is not a JSON value: a value that may be \<open>undefined\<close> is a
  \<open>json option\<close>, with \<open>None\<close> for \<open>undefined\<close>.
\<close>

datatype json =
    JNull
  | JBool bool
  | JNumber jsstring
  | JString jsstring
  | JArray "json list"
  | JObject "(jsstring \<times> json) list"

type_synonym jsval = "json option"

text \<open>
  The errors the SDK meets. The message text of a built-in error is engine-defined and
  is not modelled; the error the SDK builds itself for a status other than 201 keeps
  the two values interpolated into its message, and their conversion to a string is
  not modelled (for a \<open>message\<close> that cannot be converted the template literal throws
  a \<open>TypeError\<close> in place of that error).
\<close>

datatype js_error =
    SyntaxError
  | TypeError
  | HttpError nat jsval
  | TransportError jsstring

fun set_property :: "(jsstring \<times> json) list \<Rightarrow> jsstring \<Rightarrow> json \<Rightarrow> (jsstring \<times> json) list" where
  "set_property [] k v = [(k, v)]"
| "set_property ((k', v') # kvs) k v =
     (if k' = k then (k, v) # kvs else (k', v') # set_property kvs k v)"

text \<open>
  The lexer reads one code unit at a time. Code units named below:
  \<open>0x22\<close> is the double quote, \<open>0x5C\<close> the backslash, \<open>0x2C\<close> the comma, \<open>0x3A\<close> the
  colon, \<open>0x5B\<close> and \<open>0x5D\<close> the brackets, \<open>0x7B\<close> and \<open>0x7D\<close> the braces,
  \<open>0x2D\<close> minus, \<open>0x2B\<close> plus, \<open>0x2E\<close> the full stop, \<open>0x30\<close> to \<open>0x39\<close> the digits.
\<close>

datatype token =
    LBrace | RBrace | LBracket | RBracket | Colon | Comma
  | TString jsstring | TNumber jsstring | TWord jsstring

datatype lex_mode =
    Idle
  | InString jsstring
  | InEscape jsstring
  | InHex jsstring "code_unit list"
  | InNumber jsstring
  | InWord jsstring

definition is_digit :: "code_unit \<Rightarrow> bool" where
  "is_digit c \<longleftrightarrow> 0x30 \<le> c \<and> c \<le> 0x39"

definition is_hex :: "code_unit \<Rightarrow> bool" where
  "is_hex c \<longleftrightarrow> is_digit c \<or> (0x41 \<le> c \<and> c \<le> 0x46) \<or> (0x61 \<le> c \<and> c \<le> 0x66)"

definition hex_digit :: "code_unit \<Rightarrow> code_unit" where
  "hex_digit c = (if is_digit c then c - 0x30 else if c \<le> 0x46 then c - 0x37 else c - 0x57)"

definition hex_value :: "code_unit list \<Rightarrow> code_unit" where
  "hex_value hs = foldl (\<lambda>v h. 16 * v + hex_digit h) 0 hs"

definition is_number_char :: "code_unit \<Rightarrow> bool" where
  "is_number_char c \<longleftrightarrow> is_digit c \<or> c \<in> {0x2B, 0x2D, 0x2E, 0x45, 0x65}"

definition is_letter :: "code_unit \<Rightarrow> bool" where
  "is_letter c \<longleftrightarrow> 0x61 \<le> c \<and> c \<le> 0x7A"

text \<open>The number grammar: \<open>-? (0 | [1-9][0-9]*) (. [0-9]+)? ([eE] [+-]? [0-9]+)?\<close>.\<close>

definition valid_exp :: "jsstring \<Rightarrow> bool" where
  "valid_exp s =
     (case s of
        [] \<Rightarrow> True
      | c # cs \<Rightarrow>
          (c = 0x65 \<or> c = 0x45) \<and>
          (let ds = (case cs of
                       [] \<Rightarrow> []
                     | g # r \<Rightarrow> if g = 0x2B \<or> g = 0x2D then r else cs)
           in ds \<noteq> [] \<and> list_all is_digit ds))"

definition valid_frac :: "jsstring \<Rightarrow> bool" where
  "valid_frac s =
     (case s of
        [] \<Rightarrow> True
      | c # cs \<Rightarrow>
          if c = 0x2E then
            (case cs of
               [] \<Rightarrow> False
             | d # ds \<Rightarrow> is_digit d \<and> valid_exp (dropWhile is_digit ds))
          else valid_exp s)"

definition valid_number :: "jsstring \<Rightarrow> bool" where
  "valid_number s =
     (case (case s of [] \<Rightarrow> [] | c # cs \<Rightarrow> if c = 0x2D then cs else s) of
        [] \<Rightarrow> False
      | c # cs \<Rightarrow>
          if c = 0x30 then valid_frac cs
          else is_digit c \<and> valid_frac (dropWhile is_digit cs))"

definition lex_idle :: "token list \<Rightarrow> code_unit \<Rightarrow> (lex_mode \<times> token list) option" where
  "lex_idle ts c =
     (if c \<in> {0x09, 0x0A, 0x0D, 0x20} then Some (Idle, ts)
      else if c = 0x7B then Some (Idle, ts @ [LBrace])
      else if c = 0x7D then Some (Idle, ts @ [RBrace])
      else if c = 0x5B then Some (Idle, ts @ [LBracket])
      else if c = 0x5D then Some (Idle, ts @ [RBracket])
      else if c = 0x3A then Some (Idle, ts @ [Colon])
      else if c = 0x2C then Some (Idle, ts @ [Comma])
      else if c = 0x22 then Some (InString [], ts)
      else if c = 0x2D \<or> is_digit c then Some (InNumber [c], ts)
      else if is_letter c then Some (InWord [c], ts)
      else None)"

definition unescape :: "code_unit \<Rightarrow> code_unit option" where
  "unescape c =
     (if c = 0x22 \<or> c = 0x5C \<or> c = 0x2F then Some c
      else if c = 0x62 then Some 0x08
      else if c = 0x66 then Some 0x0C
      else if c = 0x6E then Some 0x0A
      else if c = 0x72 then Some 0x0D
      else if c = 0x74 then Some 0x09
      else None)"

fun lex_step :: "lex_mode \<times> token list \<Rightarrow> code_unit \<Rightarrow> (lex_mode \<times> token list) option" where
  "lex_step (Idle, ts) c = lex_idle ts c"
| "lex_step (InString acc, ts) c =
     (if c = 0x22 then Some (Idle, ts @ [TString acc])
      else if c = 0x5C then Some (InEscape acc, ts)
      else if c < 0x20 then None
      else Some (InString (acc @ [c]), ts))"
| "lex_step (InEscape acc, ts) c =
     (if c = 0x75 then Some (InHex acc [], ts)
      else (case unescape c of
              None \<Rightarrow> None
            | Some u \<Rightarrow> Some (InString (acc @ [u]), ts)))"
| "lex_step (InHex acc hs, ts) c =
     (if \<not> is_hex c then None
      else if length hs = 3 then Some (InString (acc @ [hex_value (hs @ [c])]), ts)
      else Some (InHex acc (hs @ [c]), ts))"
| "lex_step (InNumber acc, ts) c =
     (if is_number_char c then Some (InNumber (acc @ [c]), ts)
      else if valid_number acc then lex_idle (ts @ [TNumber acc]) c
      else None)"
| "lex_step (InWord acc, ts) c =
     (if is_letter c then Some (InWord (acc @ [c]), ts)
      else lex_idle (ts @ [TWord acc]) c)"

fun lex_all :: "lex_mode \<times> token list \<Rightarrow> jsstring \<Rightarrow> (lex_mode \<times> token list) option" where
  "lex_all st [] = Some st"
| "lex_all st (c # cs) =
     (case lex_step st c of
        None \<Rightarrow> None
      | Some st' \<Rightarrow> lex_all st' cs)"

fun lex_finish :: "lex_mode \<times> token list \<Rightarrow> token list option" where
  "lex_finish (Idle, ts) = Some ts"
| "lex_finish (InNumber acc, ts) = (if valid_number acc then Some (ts @ [TNumber acc]) else None)"
| "lex_finish (InWord acc, ts) = Some (ts @ [TWord acc])"
| "lex_finish (_, ts) = None"

definition tokens :: "jsstring \<Rightarrow> token list option" where
  "tokens s =
     (case lex_all (Idle, []) s of
        None \<Rightarrow> None
      | Some st \<Rightarrow> lex_finish st)"

text \<open>
  The parser reads the tokens with a stack of the arrays and objects that are open.
\<close>

datatype frame =
    FArray "json list"
  | FObject "(jsstring \<times> json) list" "jsstring option"

datatype expect =
    EValue | EValueOrEnd | EKeyOrEnd | EKey | EColon | ECommaOrEnd | EDone json

fun put_value :: "json \<Rightarrow> frame list \<Rightarrow> (expect \<times> frame list) option" where
  "put_value v [] = Some (EDone v, [])"
| "put_value v (FArray xs # st) = Some (ECommaOrEnd, FArray (xs @ [v]) # st)"
| "put_value v (FObject kvs (Some k) # st) =
     Some (ECommaOrEnd, FObject (set_property kvs k v) None # st)"
| "put_value v (FObject kvs None # st) = None"

fun close_array :: "frame list \<Rightarrow> (expect \<times> frame list) option" where
  "close_array (FArray xs # st) = put_value (JArray xs) st"
| "close_array _ = None"

fun close_object :: "frame list \<Rightarrow> (expect \<times> frame list) option" where
  "close_object (FObject kvs None # st) = put_value (JObject kvs) st"
| "close_object _ = None"

fun start_value :: "token \<Rightarrow> frame list \<Rightarrow> (expect \<times> frame list) option" where
  "start_value LBracket st = Some (EValueOrEnd, FArray [] # st)"
| "start_value LBrace st = Some (EKeyOrEnd, FObject [] None # st)"
| "start_value (TString s) st = put_value (JString s) st"
| "start_value (TNumber n) st = put_value (JNumber n) st"
| "start_value (TWord w) st =
     (if w = js ''true'' then put_value (JBool True) st
      else if w = js ''false'' then put_value (JBool False) st
      else if w = js ''null'' then put_value JNull st
      else None)"
| "start_value _ st = None"

fun start_key :: "token \<Rightarrow> frame list \<Rightarrow> (expect \<times> frame list) option" where
  "start_key (TString k) (FObject kvs None # st) = Some (EColon, FObject kvs (Some k) # st)"
| "start_key _ _ = None"

fun parse_step :: "expect \<times> frame list \<Rightarrow> token \<Rightarrow> (expect \<times> frame list) option" where
  "parse_step (EValue, st) t = start_value t st"
| "parse_step (EValueOrEnd, st) t = (if t = RBracket then close_array st else start_value t st)"
| "parse_step (EKeyOrEnd, st) t = (if t = RBrace then close_object st else start_key t st)"
| "parse_step (EKey, st) t = start_key t st"
| "parse_step (EColon, st) t = (if t = Colon then Some (EValue, st) else None)"
| "parse_step (ECommaOrEnd, FArray xs # st) t =
     (if t = Comma then Some (EValue, FArray xs # st)
      else if t = RBracket then close_array (FArray xs # st)
      else None)"
| "parse_step (ECommaOrEnd, FObject kvs k # st) t =
     (if t = Comma then Some (EKey, FObject kvs k # st)
      else if t = RBrace then close_object (FObject kvs k # st)
      else None)"
| "parse_step (ECommaOrEnd, []) t = None"
| "parse_step (EDone v, st) t = None"

fun parse_all :: "expect \<times> frame list \<Rightarrow> token list \<Rightarrow> (expect \<times> frame list) option" where
  "parse_all st [] = Some st"
| "parse_all st (t # ts) =
     (case parse_step st t of
        None \<Rightarrow> None
      | Some st' \<Rightarrow> parse_all st' ts)"

text \<open>\<open>JSON.parse(text)\<close>: the value, or the \<open>SyntaxError\<close> it throws.\<close>

definition JSON_parse :: "jsstring \<Rightarrow> js_error + json" where
  "JSON_parse s =
     (case tokens s of
        None \<Rightarrow> Inl SyntaxError
      | Some ts \<Rightarrow>
          (case parse_all (EValue, []) ts of
             Some (EDone v, []) \<Rightarrow> Inr v
           | _ \<Rightarrow> Inl SyntaxError))"

text \<open>
  Reading a property, for the names the SDK reads (\<open>choices\<close>, \<open>message\<close>,
  \<open>content\<close>, \<open>response\<close>, \<open>systemPrompt\<close>): only an object can own one of them, any
  other value has it \<open>undefined\<close>, and reading a property of \<open>null\<close> or \<open>undefined\<close>
  throws a \<open>TypeError\<close>.
\<close>

fun get_property :: "jsval \<Rightarrow> jsstring \<Rightarrow> js_error + jsval" where
  "get_property None k = Inl TypeError"
| "get_property (Some JNull) k = Inl TypeError"
| "get_property (Some (JObject kvs)) k = Inr (map_of kvs k)"
| "get_property (Some _) k = Inr None"

text \<open>
  \<open>v[0]\<close>: the first element of an array, the first code unit of a string, the
  property \<open>"0"\<close> of an object.
\<close>

fun get_index0 :: "jsval \<Rightarrow> js_error + jsval" where
  "get_index0 None = Inl TypeError"
| "get_index0 (Some JNull) = Inl TypeError"
| "get_index0 (Some (JObject kvs)) = Inr (map_of kvs (js ''0''))"
| "get_index0 (Some (JArray xs)) = Inr (case xs of [] \<Rightarrow> None | x # _ \<Rightarrow> Some x)"
| "get_index0 (Some (JString s)) = Inr (case s of [] \<Rightarrow> None | c # _ \<Rightarrow> Some (JString [c]))"
| "get_index0 (Some _) = Inr None"

section \<open>The stream decoder of \<open>index.js\<close>\<close>

text \<open>
  The three callbacks \<open>onSuccess\<close>, \<open>onError\<close> and \<open>onComplete\<close> are modelled by
  the list of their invocations, in order, each with its argument; the callbacks
  themselves are taken to return normally. The argument of \<open>onError\<close> is a string, a
  template literal that ends with the string form of an error, or an error object.
\<close>

datatype err_arg =
    ErrText jsstring
  | ErrTemplate jsstring js_error
  | ErrObject js_error

datatype 'a callback =
    OnSuccess 'a
  | OnError err_arg
  | OnComplete

definition processLine :: "jsstring \<Rightarrow> json callback list" where
  "processLine line =
     (if line = [] \<or> \<not> includes_js line (js ''data: '') then []
      else if includes_js line (js ''undefined'') then [OnComplete]
      else
        (let line' = (if startsWith line (js ''data: '') then substring line 6 else line)
         in case JSON_parse line' of
              Inr data \<Rightarrow> [OnSuccess data]
            | Inl error \<Rightarrow> [OnError (ErrTemplate (js ''Error processing data: '') error)]))"

text \<open>
  \<open>readStream\<close> keeps two variables between the notifications of the stream, the
  buffer and the decoder, and registers three handlers: for a chunk, for the end of
  the input and for a stream error.
\<close>

record stream_state =
  buffer :: jsstring
  decoder :: utf8_decoder

definition initial_state :: stream_state where
  "initial_state = \<lparr>buffer = [], decoder = new_decoder\<rparr>"

definition on_line :: "jsstring \<Rightarrow> json callback list" where
  "on_line line = (if line \<noteq> [] then processLine line else [])"

definition on_data :: "stream_state \<Rightarrow> byte list \<Rightarrow> stream_state \<times> json callback list" where
  "on_data st chunk =
     (let (dec, text) = decode (decoder st) chunk;
          lines = split_on LF (buffer st @ text)
      in (\<lparr>buffer = last lines, decoder = dec\<rparr>, concat (map on_line (butlast lines))))"

definition on_end :: "stream_state \<Rightarrow> json callback list" where
  "on_end st = (if buffer st \<noteq> [] then processLine (buffer st) else []) @ [OnComplete]"

definition on_error :: "stream_state \<Rightarrow> js_error \<Rightarrow> json callback list" where
  "on_error st error = [OnError (ErrTemplate [] error)]"

text \<open>The chunks of a stream, one \<open>data\<close> notification each.\<close>

fun on_chunks :: "stream_state \<Rightarrow> byte list list \<Rightarrow> stream_state \<times> json callback list" where
  "on_chunks st [] = (st, [])"
| "on_chunks st (chunk # chunks) =
     (let (st1, evs1) = on_data st chunk;
          (st2, evs2) = on_chunks st1 chunks
      in (st2, evs1 @ evs2))"

text \<open>A stream that delivers the chunks and then ends.\<close>

definition readStream :: "byte list list \<Rightarrow> json callback list" where
  "readStream chunks = (let (st, evs) = on_chunks initial_state chunks in evs @ on_end st)"

section \<open>The event-source decoder\<close>

text \<open>
  The second implementation of the SDK listens to an \<open>EventSource\<close>. The instance
  keeps the handle in \<open>this.eventSource\<close>; \<open>closes\<close> records the handles on which
  \<open>close()\<close> was called.
\<close>

record sdk =
  eventSource :: "nat option"
  closes :: "nat list"

text \<open>The constructor leaves \<open>this.eventSource\<close> undefined; \<open>listenToStream\<close> sets it.\<close>

definition new_sdk :: sdk where
  "new_sdk = \<lparr>eventSource = None, closes = []\<rparr>"

definition listenToStream :: "sdk \<Rightarrow> nat \<Rightarrow> sdk" where
  "listenToStream s h = s\<lparr>eventSource := Some h\<rparr>"

definition stopChatStream :: "sdk \<Rightarrow> sdk" where
  "stopChatStream s =
     (case eventSource s of
        Some h \<Rightarrow> s\<lparr>closes := closes s @ [h], eventSource := None\<rparr>
      | None \<Rightarrow> s)"

record chat_response =
  response :: jsval
  systemPrompt :: jsval

definition createChatResponse :: "json \<Rightarrow> js_error + chat_response" where
  "createChatResponse decoded =
     (case get_property (Some decoded) (js ''response'') of
        Inl e \<Rightarrow> Inl e
      | Inr r \<Rightarrow>
          (case get_property (Some decoded) (js ''systemPrompt'') of
             Inl e \<Rightarrow> Inl e
           | Inr p \<Rightarrow> Inr \<lparr>response = r, systemPrompt = p\<rparr>))"

text \<open>The \<open>onmessage\<close> handler that \<open>listenToStream\<close> installs, on \<open>event.data\<close>.\<close>

definition onmessage :: "sdk \<Rightarrow> jsstring \<Rightarrow> sdk \<times> chat_response callback list" where
  "onmessage s line =
     (if trim line = [] \<or> \<not> startsWith line (js ''data: '') then (s, [])
      else
        (let jsonData = trim (substring line (length (js ''data: '')))
         in if includes_js jsonData (js ''statusCode'') then (s, [OnError (ErrText jsonData)])
            else if includes_js jsonData (js ''undefined'') then (stopChatStream s, [OnComplete])
            else
              (case JSON_parse jsonData of
                 Inl error \<Rightarrow> (s, [OnError (ErrObject error)])
               | Inr decoded \<Rightarrow>
                   (case createChatResponse decoded of
                      Inl error \<Rightarrow> (s, [OnError (ErrObject error)])
                    | Inr chatResponse \<Rightarrow> (s, [OnSuccess chatResponse])))))"

section \<open>The single request\<close>

text \<open>
  \<open>fetch\<close> is the transport: given the request it rejects with an error or resolves
  with a response, of which the SDK reads the status and the body. Reading the body
  fails or gives its text, which \<open>response.json()\<close> parses. The function takes one
  options object, destructured in its parameter list; the model starts from the five
  properties of that object.
\<close>

record message =
  role :: jsval
  content :: jsval

record chat_args =
  model :: jsval
  messages :: "message list"
  sessionId :: jsval
  maxTokens :: jsval
  temperature :: jsval

record request =
  url :: jsstring
  http_method :: jsstring
  headers :: "(jsstring \<times> jsstring) list"
  body :: "(jsstring \<times> json) list"

record http_response =
  status :: nat
  body_text :: "js_error + jsstring"

definition baseUrl :: jsstring where
  "baseUrl = js ''https://launch-api.com''"

text \<open>\<open>...(x != null && { x })\<close>: the property is there unless x is null or undefined.\<close>

definition optional :: "jsstring \<Rightarrow> jsval \<Rightarrow> (jsstring \<times> json) list" where
  "optional name v =
     (case v of
        None \<Rightarrow> []
      | Some x \<Rightarrow> if x = JNull then [] else [(name, x)])"

text \<open>
  \<open>JSON.stringify\<close> leaves out a property whose value is \<open>undefined\<close>; the request
  body is kept as the properties it serialises.
\<close>

definition defined_property :: "jsstring \<Rightarrow> jsval \<Rightarrow> (jsstring \<times> json) list" where
  "defined_property name v = (case v of None \<Rightarrow> [] | Some x \<Rightarrow> [(name, x)])"

definition message_json :: "message \<Rightarrow> json" where
  "message_json m =
     JObject (defined_property (js ''role'') (role m) @ defined_property (js ''content'') (content m))"

definition chat_request :: "jsstring \<Rightarrow> chat_args \<Rightarrow> request" where
  "chat_request apiKey args =
     \<lparr>url = baseUrl @ js ''/v1/chat/completions'',
      http_method = js ''POST'',
      headers = [(js ''Content-Type'', js ''application/json''), (js ''apikey'', apiKey)],
      body = defined_property (js ''model'') (model args)
             @ [(js ''stream'', JBool False),
                (js ''messages'', JArray (map message_json (messages args)))]
             @ optional (js ''maxTokens'') (maxTokens args)
             @ optional (js ''sessionId'') (sessionId args)
             @ optional (js ''temperature'') (temperature args)\<rparr>"

datatype chat_result =
    Success jsval
  | Failure js_error

text \<open>The body of the \<open>try\<close> block: the message, or the error thrown.\<close>

definition chat_try :: "(request \<Rightarrow> js_error + http_response) \<Rightarrow> jsstring \<Rightarrow> chat_args \<Rightarrow> js_error + jsval" where
  "chat_try fetch apiKey args =
     (case fetch (chat_request apiKey args) of
        Inl e \<Rightarrow> Inl e
      | Inr res \<Rightarrow>
          (case body_text res of
             Inl e \<Rightarrow> Inl e
           | Inr text \<Rightarrow>
               (case JSON_parse text of
                  Inl e \<Rightarrow> Inl e
                | Inr data \<Rightarrow>
                    if status res \<noteq> 201 then
                      (case get_property (Some data) (js ''message'') of
                         Inl e \<Rightarrow> Inl e
                       | Inr m \<Rightarrow> Inl (HttpError (status res) m))
                    else
                      (case get_property (Some data) (js ''choices'') of
                         Inl e \<Rightarrow> Inl e
                       | Inr choices \<Rightarrow>
                           (case get_index0 choices of
                              Inl e \<Rightarrow> Inl e
                            | Inr choice \<Rightarrow>
                                (case get_property choice (js ''message'') of
                                   Inl e \<Rightarrow> Inl e
                                 | Inr m \<Rightarrow> get_property m (js ''content'')))))))"

text \<open>
  The promise that \<open>chatWithAgentFuture\<close> returns: \<open>Inr\<close> the value it resolves to,
  \<open>Inl\<close> the error it rejects with.
\<close>

definition chatWithAgentFuture :: "(request \<Rightarrow> js_error + http_response) \<Rightarrow> jsstring \<Rightarrow> chat_args \<Rightarrow> js_error + chat_result" where
  "chatWithAgentFuture fetch apiKey args =
     (case chat_try fetch apiKey args of
        Inr msg \<Rightarrow> Inr (Success msg)
      | Inl e \<Rightarrow> Inr (Failure e))"





text \<open>
  A transport that answers every request with the same response, one that fails every
  request with the same error, and the arguments of the call in
  \<open>example/chat_future.js\<close>.
\<close>

definition respond :: "http_response \<Rightarrow> request \<Rightarrow> js_error + http_response" where
  "respond res req = Inr res"


definition example_args :: chat_args where
  "example_args =
     \<lparr>model = Some (JString (js ''agentId'')),
      messages = [\<lparr>role = Some (JString (js ''user'')),
                   content = Some (JString (js ''Hello, how are you?''))\<rparr>],
      sessionId = Some (JString (js ''optional_session_id'')),
      maxTokens = Some (JNumber (js ''40'')),
      temperature = Some (JNumber (js ''0.5''))\<rparr>"

section \<open>Evaluation\<close>

lemmas string_defs = js_def bytes_def startsWith_def substring_def LF_def

lemmas decoder_defs = new_decoder_def decode_byte_def handler_def lead_byte_def code_units_def

lemmas json_defs = JSON_parse_def tokens_def lex_idle_def unescape_def is_digit_def is_hex_def
  hex_digit_def hex_value_def is_number_char_def is_letter_def valid_number_def valid_frac_def
  valid_exp_def

lemmas stream_defs = readStream_def initial_state_def on_data_def on_end_def on_line_def
  processLine_def Let_def

section \<open>Splitting into lines\<close>

lemma split_on_not_Nil: "split_on d s \<noteq> []"
  by (induction s) (auto split: list.splits)

lemma split_on_no_delim: "d \<notin> set s \<Longrightarrow> split_on d s = [s]"
  by (induction s) auto

lemma last_split_on_no_delim: "d \<notin> set (last (split_on d s))"
proof (induction s)
  case Nil
  show ?case by simp
next
  case (Cons c s)
  then show ?case
    using split_on_not_Nil [of d s] by (cases "split_on d s") (auto split: if_splits)
qed

text \<open>
  Splitting a text in two parts: the complete lines of the first part, then the lines
  of what the first part left unfinished followed by the second part.
\<close>

lemma split_on_append:
  "split_on d (x @ y) = butlast (split_on d x) @ split_on d (last (split_on d x) @ y)"
proof (induction x)
  case Nil
  show ?case by simp
next
  case (Cons c x)
  obtain l ls where sx: "split_on d x = l # ls"
    using split_on_not_Nil [of d x] by (cases "split_on d x") auto
  show ?case
  proof (cases "c = d")
    case True
    then show ?thesis using Cons sx by simp
  next
    case False
    show ?thesis
    proof (cases ls)
      case Nil
      then show ?thesis using Cons sx False by simp
    next
      case (Cons l' ls')
      then show ?thesis using Cons.IH sx False by simp
    qed
  qed
qed

section \<open>Chunk boundaries\<close>

lemma decode_append:
  "decode d (a @ b) =
     (let (d1, out1) = decode d a; (d2, out2) = decode d1 b in (d2, out1 @ out2))"
  by (induction a arbitrary: d) (auto split: prod.splits)

lemma on_data_append:
  "on_data st (a @ b) =
     (let (st1, evs1) = on_data st a; (st2, evs2) = on_data st1 b in (st2, evs1 @ evs2))"
proof -
  obtain d1 t1 where da: "decode (decoder st) a = (d1, t1)" by (cases "decode (decoder st) a")
  obtain d2 t2 where db: "decode d1 b = (d2, t2)" by (cases "decode d1 b")
  have dab: "decode (decoder st) (a @ b) = (d2, t1 @ t2)"
    by (simp add: decode_append da db)
  let ?s1 = "split_on LF (buffer st @ t1)"
  let ?s2 = "split_on LF (last ?s1 @ t2)"
  have sp: "split_on LF (buffer st @ t1 @ t2) = butlast ?s1 @ ?s2"
    using split_on_append [of LF "buffer st @ t1" t2] by simp
  have ne: "?s2 \<noteq> []" by (rule split_on_not_Nil)
  show ?thesis
    by (simp add: on_data_def Let_def da db dab sp ne butlast_append)
qed

lemma on_data_Nil: "LF \<notin> set (buffer st) \<Longrightarrow> on_data st [] = (st, [])"
  by (simp add: on_data_def Let_def split_on_no_delim)

lemma on_data_buffer: "on_data st chunk = (st', evs) \<Longrightarrow> LF \<notin> set (buffer st')"
  by (auto simp: on_data_def Let_def last_split_on_no_delim split: prod.splits)

lemma on_chunks_concat:
  "LF \<notin> set (buffer st) \<Longrightarrow> on_chunks st chunks = on_data st (concat chunks)"
proof (induction chunks arbitrary: st)
  case Nil
  then show ?case by (simp add: on_data_Nil)
next
  case (Cons c cs)
  obtain st1 evs1 where s1: "on_data st c = (st1, evs1)" by (cases "on_data st c")
  have "LF \<notin> set (buffer st1)" using s1 by (rule on_data_buffer)
  then have "on_chunks st1 cs = on_data st1 (concat cs)" by (rule Cons.IH)
  then show ?case by (simp add: s1 on_data_append)
qed

lemma on_chunks_initial: "on_chunks initial_state chunks = on_data initial_state (concat chunks)"
  by (rule on_chunks_concat) (simp add: initial_state_def)

lemma readStream_concat: "readStream chunks = readStream [concat chunks]"
proof -
  obtain st evs where s: "on_data initial_state (concat chunks) = (st, evs)"
    by (cases "on_data initial_state (concat chunks)")
  show ?thesis
    by (simp add: readStream_def on_chunks_initial s)
qed

text \<open>
  C3. Two ways of cutting the same bytes into chunks give the same callbacks, with the
  same arguments, in the same order, both while the chunks arrive and when the stream
  has ended; the buffer and the decoder are left in the same state. The cuts may fall
  anywhere, inside a line or inside a character of several bytes: the decoder keeps the
  bytes of an unfinished character in its state, so the text decoded from the chunks is
  the text of the whole input.
\<close>

theorem readStream_chunking:
  assumes "concat chunks1 = concat chunks2"
  shows "on_chunks initial_state chunks1 = on_chunks initial_state chunks2
     \<and> readStream chunks1 = readStream chunks2"
proof -
  have "on_chunks initial_state chunks1 = on_data initial_state (concat chunks1)"
    by (rule on_chunks_initial)
  also have "\<dots> = on_data initial_state (concat chunks2)" using assms by simp
  also have "\<dots> = on_chunks initial_state chunks2" by (rule on_chunks_initial [symmetric])
  finally have state: "on_chunks initial_state chunks1 = on_chunks initial_state chunks2" .
  have "readStream chunks1 = readStream [concat chunks1]" by (rule readStream_concat)
  also have "\<dots> = readStream [concat chunks2]" using assms by simp
  also have "\<dots> = readStream chunks2" by (rule readStream_concat [symmetric])
  finally have "readStream chunks1 = readStream chunks2" .
  with state show ?thesis by simp
qed

text \<open>
  The euro sign is the bytes E2 82 AC; the first cut leaves its last byte and half of
  the line to the second chunk.
\<close>

theorem readStream_chunking_witness:
  "concat [bytes ''data: \"'' @ [0xE2, 0x82], 0xAC # bytes ''\"'' @ [0x0A]]
     = concat [bytes ''data: \"'' @ [0xE2, 0x82, 0xAC] @ bytes ''\"'' @ [0x0A]]
   \<and> readStream [bytes ''data: \"'' @ [0xE2, 0x82], 0xAC # bytes ''\"'' @ [0x0A]]
     = readStream [bytes ''data: \"'' @ [0xE2, 0x82, 0xAC] @ bytes ''\"'' @ [0x0A]]
   \<and> readStream [bytes ''data: \"'' @ [0xE2, 0x82, 0xAC] @ bytes ''\"'' @ [0x0A]]
     = [OnSuccess (JString [0x20AC]), OnComplete]"
proof -
  have same: "concat [bytes ''data: \"'' @ [0xE2, 0x82], 0xAC # bytes ''\"'' @ [0x0A]]
     = concat [bytes ''data: \"'' @ [0xE2, 0x82, 0xAC] @ bytes ''\"'' @ [0x0A]]"
    by simp
  have whole: "readStream [bytes ''data: \"'' @ [0xE2, 0x82, 0xAC] @ bytes ''\"'' @ [0x0A]]
     = [OnSuccess (JString [0x20AC]), OnComplete]"
    by (simp add: string_defs decoder_defs json_defs stream_defs)
  from readStream_chunking [OF same] same whole show ?thesis by blast
qed

section \<open>Classifying a line\<close>

lemma includes_js_startsWith: "startsWith s p \<Longrightarrow> includes_js s p"
  by (cases s) (auto simp: startsWith_def)

lemma includes_js_set: "includes_js s p \<Longrightarrow> set p \<subseteq> set s"
proof (induction s)
  case Nil
  then show ?case by simp
next
  case (Cons c cs)
  from Cons.prems have "startsWith (c # cs) p \<or> includes_js cs p" by simp
  then show ?case
  proof
    assume "startsWith (c # cs) p"
    then have "p = take (length p) (c # cs)" by (simp add: startsWith_def)
    then have "set p \<subseteq> set (c # cs)" by (metis set_take_subset)
    then show ?thesis .
  next
    assume "includes_js cs p"
    then have "set p \<subseteq> set cs" by (rule Cons.IH)
    then show ?thesis by auto
  qed
qed

lemma trim_Nil_spaces: "trim s = [] \<Longrightarrow> \<forall>c \<in> set s. is_space c"
proof -
  assume "trim s = []"
  then have "dropWhile is_space (rev (dropWhile is_space s)) = []" by (simp add: trim_def)
  then have "\<forall>c \<in> set (dropWhile is_space s). is_space c" by simp
  then have "dropWhile is_space s = []"
    by (metis hd_dropWhile list.set_sel(1))
  then show ?thesis by simp
qed

lemma trim_Nil_no_prefix: "trim s = [] \<Longrightarrow> \<not> includes_js s (js ''data: '')"
proof
  assume t: "trim s = []" and i: "includes_js s (js ''data: '')"
  have "0x64 \<in> set (js ''data: '')" by (simp add: js_def)
  then have "0x64 \<in> set s" using includes_js_set [OF i] by blast
  then have "is_space 0x64" using trim_Nil_spaces [OF t] by blast
  then show False by (simp add: is_space_def)
qed

lemma processLine_frame:
  assumes "startsWith line (js ''data: '')" and "\<not> includes_js line (js ''undefined'')"
  shows "processLine line =
     (case JSON_parse (substring line 6) of
        Inr data \<Rightarrow> [OnSuccess data]
      | Inl error \<Rightarrow> [OnError (ErrTemplate (js ''Error processing data: '') error)])"
proof -
  have i: "includes_js line (js ''data: '')" using assms(1) by (rule includes_js_startsWith)
  have "line \<noteq> []" using assms(1) by (auto simp: startsWith_def js_def)
  then show ?thesis using assms i by (simp add: processLine_def)
qed

lemma on_line_frame:
  assumes "startsWith line (js ''data: '')" and "\<not> includes_js line (js ''undefined'')"
  shows "on_line line = processLine line"
  using assms(1) by (auto simp: on_line_def startsWith_def js_def)

text \<open>
  What \<open>processLine\<close> does skip: a line that is empty after trimming, and a line in
  which \<open>data: \<close> occurs nowhere.
\<close>

lemma processLine_skips:
  assumes "trim line = [] \<or> \<not> includes_js line (js ''data: '')"
  shows "processLine line = [] \<and> on_line line = []"
proof -
  have "\<not> includes_js line (js ''data: '')"
    using assms trim_Nil_no_prefix by blast
  then show ?thesis by (simp add: processLine_def on_line_def)
qed

text \<open>
  C4. \<open>processLine\<close> tests for the frame prefix with \<open>includes\<close> and removes it
  only under \<open>startsWith\<close>, so a line that does not begin with \<open>data: \<close> but has it
  further on is not skipped: a JSON line with \<open>data: \<close> inside a string is parsed whole
  and reaches \<open>onSuccess\<close>, and a line with the prefix and \<open>undefined\<close> after other
  text reaches \<open>onComplete\<close>.
\<close>

theorem prefix_not_leading_not_skipped:
  "\<not> startsWith (js ''{\"k\":\"data: x\"}'') (js ''data: '')
   \<and> processLine (js ''{\"k\":\"data: x\"}'') = [OnSuccess (JObject [(js ''k'', JString (js ''data: x''))])]
   \<and> \<not> startsWith (js ''retry data: undefined'') (js ''data: '')
   \<and> processLine (js ''retry data: undefined'') = [OnComplete]"
  by (simp add: string_defs json_defs stream_defs)

text \<open>
  C2. \<open>processLine\<close> never looks for \<open>statusCode\<close>: the line
  \<open>data: {"statusCode":500,"message":"boom"}\<close> is parsed like any data frame and
  handed to \<open>onSuccess\<close>; \<open>onError\<close> is not called.
\<close>

theorem status_frame_reaches_success:
  "processLine (js ''data: {\"statusCode\":500,\"message\":\"boom\"}'')
     = [OnSuccess (JObject [(js ''statusCode'', JNumber (js ''500'')),
                            (js ''message'', JString (js ''boom''))])]"
  by (simp add: string_defs json_defs stream_defs)

text \<open>
  C5. \<open>processLine\<close> hands the parsed value itself to \<open>onSuccess\<close>: a property that
  the server added besides \<open>response\<close> and \<open>systemPrompt\<close> reaches the caller.
\<close>

theorem extra_fields_reach_success:
  "processLine (js ''data: {\"response\":\"hi\",\"extra\":1}'')
     = [OnSuccess (JObject [(js ''response'', JString (js ''hi'')),
                            (js ''extra'', JNumber (js ''1''))])]"
  by (simp add: string_defs json_defs stream_defs)

text \<open>
  C1. After the end marker \<open>processLine\<close> calls \<open>onComplete\<close> and returns; nothing is
  closed and nothing is remembered. The \<open>end\<close> handler then calls \<open>onComplete\<close> a
  second time, and a line that follows the marker is still processed.
\<close>

theorem end_marker_completes_twice:
  "readStream [bytes ''data: undefined'' @ [0x0A]] = [OnComplete, OnComplete]
   \<and> readStream [bytes ''data: undefined'' @ [0x0A] @ bytes ''data: {\"response\":\"late\"}'' @ [0x0A]]
     = [OnComplete, OnSuccess (JObject [(js ''response'', JString (js ''late''))]), OnComplete]"
  by (simp add: string_defs decoder_defs json_defs stream_defs)

section \<open>Parse failures\<close>

text \<open>
  C6. A data frame that reaches the parser (it starts with \<open>data: \<close> and is not the end
  marker, which \<open>processLine\<close> recognises first) and whose payload \<open>JSON.parse\<close>
  rejects: \<open>onError\<close> is called once, with \<open>Error processing data: \<close> followed by the
  error. The chunk handler goes on: the lines before and after the malformed one yield
  the callbacks they yield on their own, the unfinished rest stays in the buffer, and a
  well-formed data frame among the later lines yields its success callback.
\<close>

theorem malformed_payload_reported:
  assumes bad: "startsWith bad (js ''data: '')" "\<not> includes_js bad (js ''undefined'')"
      "JSON_parse (substring bad 6) = Inl e"
    and dec: "decode (decoder st) chunk = (dec, text)"
    and lines: "split_on LF (buffer st @ text) = pre @ bad # post @ [rest]"
  shows "processLine bad = [OnError (ErrTemplate (js ''Error processing data: '') e)]
     \<and> on_data st chunk =
         (\<lparr>buffer = rest, decoder = dec\<rparr>,
          concat (map on_line pre)
            @ OnError (ErrTemplate (js ''Error processing data: '') e)
            # concat (map on_line post))
     \<and> (\<forall>good v. good \<in> set post \<and> startsWith good (js ''data: '')
            \<and> \<not> includes_js good (js ''undefined'')
            \<and> JSON_parse (substring good 6) = Inr v
          \<longrightarrow> on_line good = [OnSuccess v])"
proof -
  have p: "processLine bad = [OnError (ErrTemplate (js ''Error processing data: '') e)]"
    using processLine_frame [OF bad(1,2)] bad(3) by simp
  have l: "on_line bad = processLine bad" using bad(1,2) by (rule on_line_frame)
  have bl: "butlast (pre @ bad # post @ [rest]) = pre @ bad # post"
    by (simp add: butlast_append)
  have d: "on_data st chunk =
         (\<lparr>buffer = rest, decoder = dec\<rparr>,
          concat (map on_line pre)
            @ OnError (ErrTemplate (js ''Error processing data: '') e)
            # concat (map on_line post))"
    by (simp add: on_data_def Let_def dec lines bl l p)
  have g: "on_line good = [OnSuccess v]"
    if "startsWith good (js ''data: '')" "\<not> includes_js good (js ''undefined'')"
      "JSON_parse (substring good 6) = Inr v" for good v
    using on_line_frame [OF that(1,2)] processLine_frame [OF that(1,2)] that(3) by simp
  from p d g show ?thesis by blast
qed

theorem malformed_payload_reported_witness:
  "on_data initial_state
      (bytes ''data: {oops'' @ [0x0A] @ bytes ''data: {\"response\":\"hi\"}'' @ [0x0A])
    = (\<lparr>buffer = [], decoder = new_decoder\<lparr>bom_seen := True\<rparr>\<rparr>,
       [OnError (ErrTemplate (js ''Error processing data: '') SyntaxError),
        OnSuccess (JObject [(js ''response'', JString (js ''hi''))])])"
proof -
  let ?bad = "js ''data: {oops''"
  let ?good = "js ''data: {\"response\":\"hi\"}''"
  let ?chunk = "bytes ''data: {oops'' @ [0x0A] @ bytes ''data: {\"response\":\"hi\"}'' @ [0x0A]"
  have b1: "startsWith ?bad (js ''data: '')" by (simp add: string_defs)
  have b2: "\<not> includes_js ?bad (js ''undefined'')" by (simp add: string_defs)
  have b3: "JSON_parse (substring ?bad 6) = Inl SyntaxError" by (simp add: string_defs json_defs)
  have g1: "startsWith ?good (js ''data: '')" by (simp add: string_defs)
  have g2: "\<not> includes_js ?good (js ''undefined'')" by (simp add: string_defs)
  have g3: "JSON_parse (substring ?good 6) = Inr (JObject [(js ''response'', JString (js ''hi''))])"
    by (simp add: string_defs json_defs)
  have d: "decode (decoder initial_state) ?chunk
      = (new_decoder\<lparr>bom_seen := True\<rparr>, ?bad @ [LF] @ ?good @ [LF])"
    by (simp add: string_defs decoder_defs initial_state_def)
  have s: "split_on LF (buffer initial_state @ ?bad @ [LF] @ ?good @ [LF]) = [] @ ?bad # [?good] @ [[]]"
    by (simp add: string_defs initial_state_def)
  have m: "?good \<in> set [?good]" by simp
  from malformed_payload_reported [OF b1 b2 b3 d s] m g1 g2 g3
  have "on_data initial_state ?chunk =
         (\<lparr>buffer = [], decoder = new_decoder\<lparr>bom_seen := True\<rparr>\<rparr>,
          concat (map on_line [])
            @ OnError (ErrTemplate (js ''Error processing data: '') SyntaxError)
            # concat (map on_line [?good]))"
    and "on_line ?good = [OnSuccess (JObject [(js ''response'', JString (js ''hi''))])]"
    by blast+
  then show ?thesis by simp
qed

section \<open>End of the input\<close>

text \<open>
  C7. When the input ends and the buffer is not empty, the buffer is what follows the
  last line feed of the decoded input, and it goes through \<open>processLine\<close> like a
  complete line before \<open>onComplete\<close> is called. In particular a last data frame
  without a line feed, with a payload that parses, is delivered to \<open>onSuccess\<close> before
  \<open>onComplete\<close>.
\<close>

theorem end_of_input_residual:
  assumes run: "on_chunks initial_state chunks = (st, evs)"
    and residual: "buffer st \<noteq> []"
  shows "buffer st = last (split_on LF (snd (decode new_decoder (concat chunks))))
     \<and> readStream chunks = evs @ processLine (buffer st) @ [OnComplete]
     \<and> (\<forall>v. startsWith (buffer st) (js ''data: '')
            \<and> \<not> includes_js (buffer st) (js ''undefined'')
            \<and> JSON_parse (substring (buffer st) 6) = Inr v
          \<longrightarrow> readStream chunks = evs @ [OnSuccess v, OnComplete])"
proof -
  have "on_data initial_state (concat chunks) = (st, evs)"
    using run by (simp add: on_chunks_initial)
  then have b: "buffer st = last (split_on LF (snd (decode new_decoder (concat chunks))))"
    by (auto simp: on_data_def Let_def initial_state_def split: prod.splits)
  have r: "readStream chunks = evs @ processLine (buffer st) @ [OnComplete]"
    using residual by (simp add: readStream_def run on_end_def)
  have "readStream chunks = evs @ [OnSuccess v, OnComplete]"
    if "startsWith (buffer st) (js ''data: '')" "\<not> includes_js (buffer st) (js ''undefined'')"
      "JSON_parse (substring (buffer st) 6) = Inr v" for v
    using r processLine_frame [OF that(1,2)] that(3) by simp
  with b r show ?thesis by blast
qed

theorem end_of_input_residual_witness:
  "readStream [bytes ''data: {\"response\":\"a\"}'' @ [0x0A] @ bytes ''data: {\"resp'', bytes ''onse\":\"b\"}'']
     = [OnSuccess (JObject [(js ''response'', JString (js ''a''))]),
        OnSuccess (JObject [(js ''response'', JString (js ''b''))]),
        OnComplete]"
proof -
  let ?chunks = "[bytes ''data: {\"response\":\"a\"}'' @ [0x0A] @ bytes ''data: {\"resp'', bytes ''onse\":\"b\"}'']"
  let ?st = "\<lparr>buffer = js ''data: {\"response\":\"b\"}'', decoder = new_decoder\<lparr>bom_seen := True\<rparr>\<rparr>"
  let ?evs = "[OnSuccess (JObject [(js ''response'', JString (js ''a''))])]"
  have run: "on_chunks initial_state ?chunks = (?st, ?evs)"
    by (simp add: string_defs decoder_defs json_defs stream_defs)
  have residual: "buffer ?st \<noteq> []" by (simp add: string_defs)
  have f1: "startsWith (buffer ?st) (js ''data: '')" by (simp add: string_defs)
  have f2: "\<not> includes_js (buffer ?st) (js ''undefined'')" by (simp add: string_defs)
  have f3: "JSON_parse (substring (buffer ?st) 6) = Inr (JObject [(js ''response'', JString (js ''b''))])"
    by (simp add: string_defs json_defs)
  from end_of_input_residual [OF run residual] f1 f2 f3
  have "readStream ?chunks = ?evs @ [OnSuccess (JObject [(js ''response'', JString (js ''b''))]), OnComplete]"
    by blast
  then show ?thesis by simp
qed

section \<open>The event-source decoder: closing and projecting\<close>

text \<open>
  C9. The first call of \<open>stopChatStream\<close> on an open handle closes it once and clears
  the reference; every further call, and a call when no handle was ever opened, changes
  nothing.
\<close>

theorem stopChatStream_twice:
  "stopChatStream (stopChatStream s) = stopChatStream s
   \<and> eventSource (stopChatStream s) = None
   \<and> (\<forall>h. eventSource s = Some h \<longrightarrow>
         closes (stopChatStream (stopChatStream s)) = closes s @ [h])
   \<and> (eventSource s = None \<longrightarrow> stopChatStream s = s)"
  by (auto simp: stopChatStream_def split: option.splits)

theorem stopChatStream_twice_witness:
  "eventSource (listenToStream new_sdk 7) = Some 7
   \<and> closes (stopChatStream (stopChatStream (listenToStream new_sdk 7))) = [7]
   \<and> eventSource (stopChatStream (listenToStream new_sdk 7)) = None
   \<and> eventSource new_sdk = None
   \<and> stopChatStream new_sdk = new_sdk"
proof -
  have a: "eventSource (listenToStream new_sdk 7) = Some 7"
    by (simp add: listenToStream_def)
  have b: "closes (listenToStream new_sdk 7) = []"
    by (simp add: listenToStream_def new_sdk_def)
  have c: "eventSource new_sdk = None" by (simp add: new_sdk_def)
  have t1: "closes (stopChatStream (stopChatStream (listenToStream new_sdk 7)))
      = closes (listenToStream new_sdk 7) @ [7]"
    using stopChatStream_twice [of "listenToStream new_sdk 7"] a by blast
  have t2: "eventSource (stopChatStream (listenToStream new_sdk 7)) = None"
    using stopChatStream_twice [of "listenToStream new_sdk 7"] by blast
  have t3: "stopChatStream new_sdk = new_sdk"
    using stopChatStream_twice [of new_sdk] c by blast
  show ?thesis using a b c t1 t2 t3 by simp
qed

text \<open>
  The \<open>onmessage\<close> handler does what \<open>processLine\<close> leaves out: a line that does
  not begin with \<open>data: \<close> is skipped, a payload with \<open>statusCode\<close> goes to
  \<open>onError\<close> as it is, the end marker closes the event source after \<open>onComplete\<close>,
  and \<open>createChatResponse\<close> keeps the two properties only.
\<close>

lemma prefix_length: "length (js ''data: '') = 6"
  by (simp add: js_def)

lemma onmessage_skips:
  "trim line = [] \<or> \<not> startsWith line (js ''data: '') \<Longrightarrow> onmessage s line = (s, [])"
  by (simp add: onmessage_def)

lemma onmessage_prefix_not_leading:
  "onmessage s (js ''{\"k\":\"data: x\"}'') = (s, [])
   \<and> onmessage s (js ''retry data: undefined'') = (s, [])"
  by (simp add: onmessage_def string_defs)

lemma onmessage_status_frame:
  assumes "startsWith line (js ''data: '')"
    and "includes_js (trim (substring line 6)) (js ''statusCode'')"
  shows "onmessage s line = (s, [OnError (ErrText (trim (substring line 6)))])"
proof -
  have "trim line \<noteq> []"
    using trim_Nil_no_prefix [of line] includes_js_startsWith [OF assms(1)] by blast
  then show ?thesis using assms by (simp add: onmessage_def Let_def prefix_length)
qed

lemma onmessage_end_marker:
  assumes "startsWith line (js ''data: '')"
    and "\<not> includes_js (trim (substring line 6)) (js ''statusCode'')"
    and "includes_js (trim (substring line 6)) (js ''undefined'')"
  shows "onmessage s line = (stopChatStream s, [OnComplete])"
proof -
  have "trim line \<noteq> []"
    using trim_Nil_no_prefix [of line] includes_js_startsWith [OF assms(1)] by blast
  then show ?thesis using assms by (simp add: onmessage_def Let_def prefix_length)
qed

lemma createChatResponse_object:
  "createChatResponse (JObject kvs)
     = Inr \<lparr>response = map_of kvs (js ''response''), systemPrompt = map_of kvs (js ''systemPrompt'')\<rparr>"
  by (simp add: createChatResponse_def)

lemma onmessage_extra_fields:
  "onmessage s (js ''data: {\"response\":\"hi\",\"extra\":1}'')
     = (s, [OnSuccess \<lparr>response = Some (JString (js ''hi'')), systemPrompt = None\<rparr>])"
  by (simp add: onmessage_def createChatResponse_def string_defs json_defs trim_def is_space_def Let_def)

section \<open>The single request\<close>

lemmas chat_defs = chatWithAgentFuture_def chat_try_def respond_def





lemma chat_status_failure:
  "fetch (chat_request apiKey args) = Inr res \<Longrightarrow> status res \<noteq> 201 \<Longrightarrow>
   \<exists>e. chatWithAgentFuture fetch apiKey args = Inr (Failure e)"
  by (simp add: chat_defs split: sum.splits)

lemma chat_status_object:
  "fetch (chat_request apiKey args) = Inr res \<Longrightarrow> status res \<noteq> 201 \<Longrightarrow>
   body_text res = Inr t \<Longrightarrow> JSON_parse t = Inr (JObject kvs) \<Longrightarrow>
   chatWithAgentFuture fetch apiKey args
     = Inr (Failure (HttpError (status res) (map_of kvs (js ''message''))))"
  by (simp add: chat_defs)

lemma chat_success_only:
  "chatWithAgentFuture fetch apiKey args = Inr (Success c) \<Longrightarrow>
   \<exists>res t data. fetch (chat_request apiKey args) = Inr res \<and> status res = 201
     \<and> body_text res = Inr t \<and> JSON_parse t = Inr data"
  by (auto simp: chat_defs split: sum.splits if_splits)

lemma chat_shape_success:
  "fetch (chat_request apiKey args) = Inr res \<Longrightarrow> status res = 201 \<Longrightarrow>
   body_text res = Inr t \<Longrightarrow> JSON_parse t = Inr (JObject kvs) \<Longrightarrow>
   map_of kvs (js ''choices'') = Some (JArray (JObject ckvs # others)) \<Longrightarrow>
   map_of ckvs (js ''message'') = Some (JObject mkvs) \<Longrightarrow>
   chatWithAgentFuture fetch apiKey args = Inr (Success (map_of mkvs (js ''content'')))"
  by (simp add: chat_defs)

lemma chat_no_choices:
  "fetch (chat_request apiKey args) = Inr res \<Longrightarrow> status res = 201 \<Longrightarrow>
   body_text res = Inr t \<Longrightarrow> JSON_parse t = Inr (JObject kvs) \<Longrightarrow>
   map_of kvs (js ''choices'') = None \<or> map_of kvs (js ''choices'') = Some (JArray []) \<Longrightarrow>
   chatWithAgentFuture fetch apiKey args = Inr (Failure TypeError)"
  by (auto simp: chat_defs)










text \<open>
  C10. Success needs the status 201 exactly. With any other status, 200 included, the
  result is \<open>{success: false, error}\<close>, whatever the body; when the body is a JSON
  object the error is the one the SDK builds from the status and the body's
  \<open>message\<close>.
\<close>

theorem only_status_201_succeeds:
  "(\<forall>c. chatWithAgentFuture fetch apiKey args = Inr (Success c) \<longrightarrow>
       (\<exists>res. fetch (chat_request apiKey args) = Inr res \<and> status res = 201))
   \<and> (\<forall>res. fetch (chat_request apiKey args) = Inr res \<and> status res \<noteq> 201 \<longrightarrow>
         (\<exists>e. chatWithAgentFuture fetch apiKey args = Inr (Failure e))
       \<and> (\<forall>t kvs. body_text res = Inr t \<and> JSON_parse t = Inr (JObject kvs) \<longrightarrow>
             chatWithAgentFuture fetch apiKey args
               = Inr (Failure (HttpError (status res) (map_of kvs (js ''message''))))))"
  using chat_success_only [of fetch apiKey args] chat_status_failure [of fetch apiKey args]
    chat_status_object [of fetch apiKey args]
  by blast

theorem only_status_201_succeeds_witness:
  "chatWithAgentFuture
      (respond \<lparr>status = 200,
                body_text = Inr (js ''{\"choices\":[{\"message\":{\"content\":\"ok\"}}]}'')\<rparr>)
      (js ''key'') example_args
     = Inr (Failure (HttpError 200 None))
   \<and> chatWithAgentFuture
      (respond \<lparr>status = 201,
                body_text = Inr (js ''{\"choices\":[{\"message\":{\"content\":\"ok\"}}]}'')\<rparr>)
      (js ''key'') example_args
     = Inr (Success (Some (JString (js ''ok''))))"
proof -
  let ?r200 = "\<lparr>status = 200,
     body_text = Inr (js ''{\"choices\":[{\"message\":{\"content\":\"ok\"}}]}'')\<rparr>"
  let ?r201 = "\<lparr>status = 201,
     body_text = Inr (js ''{\"choices\":[{\"message\":{\"content\":\"ok\"}}]}'')\<rparr>"
  have p: "JSON_parse (js ''{\"choices\":[{\"message\":{\"content\":\"ok\"}}]}'')
      = Inr (JObject [(js ''choices'',
               JArray [JObject [(js ''message'', JObject [(js ''content'', JString (js ''ok''))])]])])"
    by (simp add: string_defs json_defs)
  have m: "map_of [(js ''choices'',
       JArray [JObject [(js ''message'', JObject [(js ''content'', JString (js ''ok''))])]])]
       (js ''message'') = None"
    by (simp add: js_def)
  have a: "chatWithAgentFuture (respond ?r200) (js ''key'') example_args
      = Inr (Failure (HttpError 200 None))"
    using only_status_201_succeeds [of "respond ?r200" "js ''key''" example_args] p m
    by (simp add: respond_def)
  have b: "chatWithAgentFuture (respond ?r201) (js ''key'') example_args
      = Inr (Success (Some (JString (js ''ok''))))"
    by (simp add: chat_defs p)
  from a b show ?thesis by simp
qed

end
